theory Spec2Isabelle
  imports Complex_Main "HOL-Library.AList"
begin

section \<open>Common conventions\<close>

text \<open>
  The services are Python classes whose methods never let an exception escape: every
  method body is wrapped in \<open>try ... except Exception as e\<close> and answers with a tuple
  \<open>(success, message)\<close> or \<open>(success, message, payload)\<close>. An exception raised
  by a library call is modelled as \<open>Inl msg\<close>, \<open>msg\<close> being \<open>str(e)\<close>, and the
  tuples are kept as they are, with the message texts of the source.

  A Python \<open>dict\<close> keeps insertion order, and \<open>get_default_model\<close> depends on that
  order, so the two dictionaries of the model service are association lists.
  \<open>d[k] = v\<close> is \<open>AList.update\<close> (an existing key keeps its place, a new key goes to
  the end), \<open>del d[k]\<close> is \<open>AList.delete\<close>, \<open>k in d\<close> is a lookup with
  \<open>map_of\<close>.
\<close>

type_synonym exn = string

text \<open>An object handed out by a provider library; only its identity matters.\<close>

type_synonym pyobj = nat

section \<open>Model service (app/services/model_service.py)\<close>

subsection \<open>Data model\<close>

text \<open>
  Modelled from the spec: the request and configuration classes that
  \<open>model_service.py\<close> imports from \<open>app.models.model\<close> (a \<open>ModelConfigModel\<close>
  with \<open>model_path\<close>, \<open>model_type\<close>, \<open>is_default\<close> and \<open>config\<close>; the
  \<open>UpdateModelRequestModel\<close>, \<open>TextGenerationRequestModel\<close> and
  \<open>EmbeddingRequestModel\<close> classes; the provider tag \<open>SENTENCE_TRANSFORMERS\<close>) are
  not the classes of the \<open>model.py\<close> at hand. Their fields are taken from the way the
  service, its gRPC front end and \<open>test_openai_integration.py\<close> use them, and from the
  descriptor of the specification (name, provider, locator, modelType, config,
  isDefault). The provider tags are those of the enumeration at hand together with the
  sentence-embedding tag the service dispatches on.
\<close>

datatype ModelProvider = OPENAI | HUGGINGFACE | SENTENCE_TRANSFORMERS | OLLAMA | CUSTOM

fun provider_value :: "ModelProvider \<Rightarrow> string" where
  "provider_value OPENAI = ''openai''"
| "provider_value HUGGINGFACE = ''huggingface''"
| "provider_value SENTENCE_TRANSFORMERS = ''sentence_transformers''"
| "provider_value OLLAMA = ''ollama''"
| "provider_value CUSTOM = ''custom''"

record ModelConfigModel =
  mc_name :: string
  mc_provider :: ModelProvider
  mc_model_path :: string
  mc_model_type :: string
  mc_description :: "string option"
  mc_is_default :: bool
  mc_config :: "(string \<times> string) list"

record RegisterModelRequestModel =
  rq_name :: string
  rq_provider :: ModelProvider
  rq_model_path :: string
  rq_model_type :: string
  rq_description :: "string option"
  rq_is_default :: bool
  rq_config :: "(string \<times> string) list option"

record UpdateModelRequestModel =
  up_name :: string
  up_provider :: "ModelProvider option"
  up_model_path :: "string option"
  up_model_type :: "string option"
  up_description :: "string option"
  up_is_default :: "bool option"
  up_config :: "(string \<times> string) list option"

record TextGenerationRequestModel =
  tg_model_name :: "string option"
  tg_prompt :: string
  tg_max_tokens :: int
  tg_temperature :: real
  tg_top_p :: real

record TextGenerationResponseModel =
  tr_text :: string
  tr_model_name :: string
  tr_tokens_used :: int
  tr_finish_reason :: string

record EmbeddingRequestModel =
  em_model_name :: "string option"
  em_text :: string

record EmbeddingResponseModel =
  er_embedding :: "real list"
  er_model_name :: string
  er_dimension :: nat

text \<open>
  What \<open>loaded_models\<close> holds: the dictionary \<open>{"tokenizer": t, "model": m}\<close> of a
  HuggingFace model, the string \<open>"openai"\<close>, or a \<open>SentenceTransformer\<close> object.
\<close>

datatype loaded_model = TokenizerAndModel pyobj pyobj | Str string | Obj pyobj

record ModelService =
  models :: "(string \<times> ModelConfigModel) list"
  loaded_models :: "(string \<times> loaded_model) list"
  openai_client :: "pyobj option"

text \<open>\<open>__init__\<close>: both dictionaries empty; the client exists iff an API key is set.\<close>

definition init_service :: "pyobj option \<Rightarrow> ModelService" where
  "init_service client = \<lparr>models = [], loaded_models = [], openai_client = client\<rparr>"

subsection \<open>Provider libraries\<close>

text \<open>
  The provider libraries (transformers, sentence-transformers, the OpenAI client) are
  outside the repository. They are a parameter of the model: one function per library
  entry point the service calls, which either raises or returns. The calls the service
  makes to the libraries are recorded, in order, as a list of \<open>provider_call\<close>.
\<close>

record Providers =
  AutoTokenizer_from_pretrained :: "string \<Rightarrow> exn + pyobj"
  AutoModel_from_pretrained :: "string \<Rightarrow> exn + pyobj"
  AutoModelForCausalLM_from_pretrained :: "string \<Rightarrow> exn + pyobj"
  SentenceTransformer :: "string \<Rightarrow> exn + pyobj"
  huggingface_generate :: "loaded_model \<Rightarrow> TextGenerationRequestModel \<Rightarrow> exn + (string \<times> int)"
  openai_chat_completions :: "pyobj \<Rightarrow> string \<Rightarrow> TextGenerationRequestModel \<Rightarrow> exn + (string \<times> int)"
  huggingface_embed :: "loaded_model \<Rightarrow> string \<Rightarrow> exn + real list"
  openai_embeddings :: "pyobj \<Rightarrow> string \<Rightarrow> string \<Rightarrow> exn + real list"
  sentence_transformers_encode :: "loaded_model \<Rightarrow> string \<Rightarrow> exn + real list"

datatype provider_call =
    CallAutoTokenizer string
  | CallAutoModel string
  | CallAutoModelForCausalLM string
  | CallSentenceTransformer string
  | CallHuggingfaceGenerate
  | CallOpenAIChat string
  | CallHuggingfaceEmbed
  | CallOpenAIEmbeddings string
  | CallSentenceTransformersEncode

subsection \<open>Registry operations\<close>

definition has_key :: "('k \<times> 'v) list \<Rightarrow> 'k \<Rightarrow> bool" where
  "has_key d k = (map_of d k \<noteq> None)"

text \<open>
  The loop of \<open>register_model\<close> and \<open>update_model\<close>:
  \<open>for name, config in self.models.items(): if name != request.name: config.is_default = False\<close>.
\<close>

fun clear_other_defaults :: "string \<Rightarrow> (string \<times> ModelConfigModel) list \<Rightarrow> (string \<times> ModelConfigModel) list" where
  "clear_other_defaults rname [] = []"
| "clear_other_defaults rname ((name, config) # rest) =
     (if name \<noteq> rname then (name, config\<lparr>mc_is_default := False\<rparr>) else (name, config))
       # clear_other_defaults rname rest"

definition unload_model :: "ModelService \<Rightarrow> string \<Rightarrow> ModelService \<times> (bool \<times> string)" where
  "unload_model s name =
     (if \<not> has_key (loaded_models s) name
      then (s, (True, ''Model '' @ name @ '' not loaded''))
      else (s\<lparr>loaded_models := AList.delete name (loaded_models s)\<rparr>,
            (True, ''Model '' @ name @ '' unloaded successfully'')))"

definition is_model_loaded :: "ModelService \<Rightarrow> string \<Rightarrow> bool" where
  "is_model_loaded s name = has_key (loaded_models s) name"

definition register_model :: "ModelService \<Rightarrow> RegisterModelRequestModel \<Rightarrow> ModelService \<times> (bool \<times> string)" where
  "register_model s request =
     (if has_key (models s) (rq_name request)
      then (s, (False, ''Model '' @ rq_name request @ '' already registered''))
      else
        let model_config = \<lparr>mc_name = rq_name request,
                             mc_provider = rq_provider request,
                             mc_model_path = rq_model_path request,
                             mc_model_type = rq_model_type request,
                             mc_description = rq_description request,
                             mc_is_default = rq_is_default request,
                             mc_config = (case rq_config request of None \<Rightarrow> [] | Some c \<Rightarrow> c)\<rparr>;
            ms1 = AList.update (rq_name request) model_config (models s);
            ms2 = (if rq_is_default request
                   then clear_other_defaults (rq_name request) ms1 else ms1)
        in (s\<lparr>models := ms2\<rparr>,
            (True, ''Model '' @ rq_name request @ '' registered successfully'')))"

text \<open>\<open>dict.update\<close>: the entries of the argument are stored one after the other.\<close>

fun dict_update :: "('k \<times> 'v) list \<Rightarrow> ('k \<times> 'v) list \<Rightarrow> ('k \<times> 'v) list" where
  "dict_update d [] = d"
| "dict_update d ((k, v) # rest) = dict_update (AList.update k v d) rest"

text \<open>
  \<open>update_model\<close> mutates the stored configuration object in place, field by field,
  clears the other default flags when \<open>is_default\<close> is given and true, and unloads the
  model when it is loaded.
\<close>

definition update_model :: "ModelService \<Rightarrow> UpdateModelRequestModel \<Rightarrow> ModelService \<times> (bool \<times> string)" where
  "update_model s request =
     (case map_of (models s) (up_name request) of
        None \<Rightarrow> (s, (False, ''Model '' @ up_name request @ '' not found''))
      | Some model_config \<Rightarrow>
          let c1 = (case up_provider request of None \<Rightarrow> model_config
                    | Some p \<Rightarrow> model_config\<lparr>mc_provider := p\<rparr>);
              c2 = (case up_model_path request of None \<Rightarrow> c1
                    | Some p \<Rightarrow> c1\<lparr>mc_model_path := p\<rparr>);
              c3 = (case up_model_type request of None \<Rightarrow> c2
                    | Some t \<Rightarrow> c2\<lparr>mc_model_type := t\<rparr>);
              c4 = (case up_description request of None \<Rightarrow> c3
                    | Some d \<Rightarrow> c3\<lparr>mc_description := Some d\<rparr>);
              c5 = (case up_is_default request of None \<Rightarrow> c4
                    | Some b \<Rightarrow> c4\<lparr>mc_is_default := b\<rparr>);
              ms1 = AList.update (up_name request) c5 (models s);
              ms2 = (if up_is_default request = Some True
                     then clear_other_defaults (up_name request) ms1 else ms1);
              c6 = (case up_config request of None \<Rightarrow> c5
                    | Some cfg \<Rightarrow> c5\<lparr>mc_config := dict_update (mc_config c5) cfg\<rparr>);
              s1 = s\<lparr>models := AList.update (up_name request) c6 ms2\<rparr>;
              s2 = (if has_key (loaded_models s1) (up_name request)
                    then fst (unload_model s1 (up_name request)) else s1)
          in (s2, (True, ''Model '' @ up_name request @ '' updated successfully'')))"

definition unregister_model :: "ModelService \<Rightarrow> string \<Rightarrow> ModelService \<times> (bool \<times> string)" where
  "unregister_model s name =
     (if \<not> has_key (models s) name
      then (s, (False, ''Model '' @ name @ '' not found''))
      else
        let s1 = (if has_key (loaded_models s) name then fst (unload_model s name) else s)
        in (s1\<lparr>models := AList.delete name (models s1)\<rparr>,
            (True, ''Model '' @ name @ '' unregistered successfully'')))"

definition list_models :: "ModelService \<Rightarrow> ModelConfigModel list" where
  "list_models s = map snd (models s)"

definition get_model :: "ModelService \<Rightarrow> string \<Rightarrow> ModelConfigModel option" where
  "get_model s name = map_of (models s) name"

text \<open>The first configuration, in insertion order, of the type asked for that is a default.\<close>

definition get_default_model :: "ModelService \<Rightarrow> string \<Rightarrow> ModelConfigModel option" where
  "get_default_model s model_type =
     find (\<lambda>config. mc_model_type config = model_type \<and> mc_is_default config)
       (map snd (models s))"

subsection \<open>Loading\<close>

text \<open>
  \<open>_load_huggingface_model\<close>: the tokenizer, then the model class that goes with the
  model type; any other model type raises \<open>ValueError\<close>. The result comes with the
  library calls made.
\<close>

definition load_huggingface_model :: "Providers \<Rightarrow> ModelConfigModel \<Rightarrow> (exn + loaded_model) \<times> provider_call list" where
  "load_huggingface_model env config =
     (if mc_model_type config = ''embedding'' then
        (case AutoTokenizer_from_pretrained env (mc_model_path config) of
           Inl e \<Rightarrow> (Inl e, [CallAutoTokenizer (mc_model_path config)])
         | Inr tokenizer \<Rightarrow>
             (case AutoModel_from_pretrained env (mc_model_path config) of
                Inl e \<Rightarrow> (Inl e, [CallAutoTokenizer (mc_model_path config),
                                   CallAutoModel (mc_model_path config)])
              | Inr model \<Rightarrow> (Inr (TokenizerAndModel tokenizer model),
                                [CallAutoTokenizer (mc_model_path config),
                                 CallAutoModel (mc_model_path config)])))
      else if mc_model_type config = ''generation'' then
        (case AutoTokenizer_from_pretrained env (mc_model_path config) of
           Inl e \<Rightarrow> (Inl e, [CallAutoTokenizer (mc_model_path config)])
         | Inr tokenizer \<Rightarrow>
             (case AutoModelForCausalLM_from_pretrained env (mc_model_path config) of
                Inl e \<Rightarrow> (Inl e, [CallAutoTokenizer (mc_model_path config),
                                   CallAutoModelForCausalLM (mc_model_path config)])
              | Inr model \<Rightarrow> (Inr (TokenizerAndModel tokenizer model),
                                [CallAutoTokenizer (mc_model_path config),
                                 CallAutoModelForCausalLM (mc_model_path config)])))
      else (Inl (''Unsupported model type: '' @ mc_model_type config), []))"

definition load_sentence_transformers_model :: "Providers \<Rightarrow> ModelConfigModel \<Rightarrow> (exn + loaded_model) \<times> provider_call list" where
  "load_sentence_transformers_model env config =
     (case SentenceTransformer env (mc_model_path config) of
        Inl e \<Rightarrow> (Inl e, [CallSentenceTransformer (mc_model_path config)])
      | Inr m \<Rightarrow> (Inr (Obj m), [CallSentenceTransformer (mc_model_path config)]))"

text \<open>The tail of \<open>load_model\<close>: store what the provider returned, or report what it raised.\<close>

definition store_loaded :: "ModelService \<Rightarrow> string \<Rightarrow> (exn + loaded_model) \<times> provider_call list \<Rightarrow> ModelService \<times> (bool \<times> string) \<times> provider_call list" where
  "store_loaded s name r =
     (case r of
        (Inl e, calls) \<Rightarrow> (s, (False, ''Failed to load model: '' @ e), calls)
      | (Inr model, calls) \<Rightarrow>
          (s\<lparr>loaded_models := AList.update name model (loaded_models s)\<rparr>,
           (True, ''Model '' @ name @ '' loaded successfully''), calls))"

definition load_model :: "Providers \<Rightarrow> ModelService \<Rightarrow> string \<Rightarrow> ModelService \<times> (bool \<times> string) \<times> provider_call list" where
  "load_model env s name =
     (case map_of (models s) name of
        None \<Rightarrow> (s, (False, ''Model '' @ name @ '' not found''), [])
      | Some model_config \<Rightarrow>
          if has_key (loaded_models s) name
          then (s, (True, ''Model '' @ name @ '' already loaded''), [])
          else
            (case mc_provider model_config of
               HUGGINGFACE \<Rightarrow> store_loaded s name (load_huggingface_model env model_config)
             | OPENAI \<Rightarrow>
                 (case openai_client s of
                    None \<Rightarrow> (s, (False, ''OpenAI client not initialized''), [])
                  | Some client \<Rightarrow> store_loaded s name (Inr (Str ''openai''), []))
             | SENTENCE_TRANSFORMERS \<Rightarrow>
                 store_loaded s name (load_sentence_transformers_model env model_config)
             | OLLAMA \<Rightarrow>
                 (s, (False, ''Unsupported provider: '' @ provider_value OLLAMA), [])
             | CUSTOM \<Rightarrow>
                 (s, (False, ''Unsupported provider: '' @ provider_value CUSTOM), [])))"

subsection \<open>Text generation and embedding\<close>

text \<open>
  \<open>if not model_name\<close> holds for \<open>None\<close> and for the empty string; then the default
  model of the type is looked up and its name is used.
\<close>

definition resolve_model_name :: "ModelService \<Rightarrow> string option \<Rightarrow> string \<Rightarrow> string option" where
  "resolve_model_name s model_name model_type =
     (if model_name = None \<or> model_name = Some []
      then map_option mc_name (get_default_model s model_type)
      else model_name)"

text \<open>
  \<open>_generate_with_openai\<close> and \<open>_embed_with_openai\<close> go through
  \<open>self.openai_client\<close>; on \<open>None\<close> the attribute access raises
  \<open>AttributeError\<close>, whose text quotes the type and the attribute.
\<close>

definition none_has_no_attribute :: "string \<Rightarrow> exn" where
  "none_has_no_attribute attr =
     [CHR 0x27] @ ''NoneType'' @ [CHR 0x27] @ '' object has no attribute ''
       @ [CHR 0x27] @ attr @ [CHR 0x27]"

definition generate_with_openai :: "Providers \<Rightarrow> ModelService \<Rightarrow> string \<Rightarrow> TextGenerationRequestModel \<Rightarrow> (exn + (string \<times> int)) \<times> provider_call list" where
  "generate_with_openai env s model_path request =
     (case openai_client s of
        None \<Rightarrow> (Inl (none_has_no_attribute ''chat''), [])
      | Some client \<Rightarrow>
          (openai_chat_completions env client model_path request, [CallOpenAIChat model_path]))"

definition embed_with_openai :: "Providers \<Rightarrow> ModelService \<Rightarrow> string \<Rightarrow> string \<Rightarrow> (exn + real list) \<times> provider_call list" where
  "embed_with_openai env s model_path text =
     (case openai_client s of
        None \<Rightarrow> (Inl (none_has_no_attribute ''embeddings''), [])
      | Some client \<Rightarrow>
          (openai_embeddings env client model_path text, [CallOpenAIEmbeddings model_path]))"

text \<open>
  The part of \<open>generate_text\<close> after the model is known to be registered and loaded:
  the two dictionary reads (a missing key raises \<open>KeyError\<close>, whose text is the
  quoted key) and the dispatch on the provider.
\<close>

definition key_error :: "string \<Rightarrow> exn" where
  "key_error k = [CHR 0x27] @ k @ [CHR 0x27]"

definition dispatch_generate :: "Providers \<Rightarrow> ModelService \<Rightarrow> string \<Rightarrow> TextGenerationRequestModel \<Rightarrow> (bool \<times> string \<times> TextGenerationResponseModel option) \<times> provider_call list" where
  "dispatch_generate env s model_name request =
     (case (map_of (models s) model_name, map_of (loaded_models s) model_name) of
        (Some model_config, Some loaded) \<Rightarrow>
          (let r = (case mc_provider model_config of
                      HUGGINGFACE \<Rightarrow> (Some (huggingface_generate env loaded request), [CallHuggingfaceGenerate])
                    | OPENAI \<Rightarrow> (case generate_with_openai env s (mc_model_path model_config) request of
                                   (x, calls) \<Rightarrow> (Some x, calls))
                    | _ \<Rightarrow> (None, []))
           in case r of
                (None, calls) \<Rightarrow>
                  ((False, ''Text generation not supported for provider: ''
                             @ provider_value (mc_provider model_config), None), calls)
              | (Some (Inl e), calls) \<Rightarrow> ((False, ''Failed to generate text: '' @ e, None), calls)
              | (Some (Inr (text, tokens)), calls) \<Rightarrow>
                  ((True, ''Text generated successfully'',
                    Some \<lparr>tr_text = text, tr_model_name = model_name,
                          tr_tokens_used = tokens, tr_finish_reason = ''completed''\<rparr>), calls))
      | _ \<Rightarrow> ((False, ''Failed to generate text: '' @ key_error model_name, None), []))"

definition generate_text :: "Providers \<Rightarrow> ModelService \<Rightarrow> TextGenerationRequestModel \<Rightarrow> ModelService \<times> (bool \<times> string \<times> TextGenerationResponseModel option) \<times> provider_call list" where
  "generate_text env s request =
     (case resolve_model_name s (tg_model_name request) ''generation'' of
        None \<Rightarrow> (s, (False, ''No default generation model available'', None), [])
      | Some model_name \<Rightarrow>
          if \<not> has_key (models s) model_name
          then (s, (False, ''Model '' @ model_name @ '' not found'', None), [])
          else if \<not> has_key (loaded_models s) model_name
          then (case load_model env s model_name of
                  (s1, (success, message), calls) \<Rightarrow>
                    if \<not> success then (s1, (False, message, None), calls)
                    else (case dispatch_generate env s1 model_name request of
                            (r, calls2) \<Rightarrow> (s1, r, calls @ calls2)))
          else (case dispatch_generate env s model_name request of
                  (r, calls2) \<Rightarrow> (s, r, calls2)))"

definition dispatch_embed :: "Providers \<Rightarrow> ModelService \<Rightarrow> string \<Rightarrow> EmbeddingRequestModel \<Rightarrow> (bool \<times> string \<times> EmbeddingResponseModel option) \<times> provider_call list" where
  "dispatch_embed env s model_name request =
     (case (map_of (models s) model_name, map_of (loaded_models s) model_name) of
        (Some model_config, Some loaded) \<Rightarrow>
          (let r = (case mc_provider model_config of
                      HUGGINGFACE \<Rightarrow> (Some (huggingface_embed env loaded (em_text request)), [CallHuggingfaceEmbed])
                    | OPENAI \<Rightarrow> (case embed_with_openai env s (mc_model_path model_config) (em_text request) of
                                   (x, calls) \<Rightarrow> (Some x, calls))
                    | SENTENCE_TRANSFORMERS \<Rightarrow>
                        (Some (sentence_transformers_encode env loaded (em_text request)),
                         [CallSentenceTransformersEncode])
                    | _ \<Rightarrow> (None, []))
           in case r of
                (None, calls) \<Rightarrow>
                  ((False, ''Embedding not supported for provider: ''
                             @ provider_value (mc_provider model_config), None), calls)
              | (Some (Inl e), calls) \<Rightarrow> ((False, ''Failed to generate embedding: '' @ e, None), calls)
              | (Some (Inr embedding), calls) \<Rightarrow>
                  ((True, ''Embedding generated successfully'',
                    Some \<lparr>er_embedding = embedding, er_model_name = model_name,
                          er_dimension = length embedding\<rparr>), calls))
      | _ \<Rightarrow> ((False, ''Failed to generate embedding: '' @ key_error model_name, None), []))"

definition generate_embedding :: "Providers \<Rightarrow> ModelService \<Rightarrow> EmbeddingRequestModel \<Rightarrow> ModelService \<times> (bool \<times> string \<times> EmbeddingResponseModel option) \<times> provider_call list" where
  "generate_embedding env s request =
     (case resolve_model_name s (em_model_name request) ''embedding'' of
        None \<Rightarrow> (s, (False, ''No default embedding model available'', None), [])
      | Some model_name \<Rightarrow>
          if \<not> has_key (models s) model_name
          then (s, (False, ''Model '' @ model_name @ '' not found'', None), [])
          else if \<not> has_key (loaded_models s) model_name
          then (case load_model env s model_name of
                  (s1, (success, message), calls) \<Rightarrow>
                    if \<not> success then (s1, (False, message, None), calls)
                    else (case dispatch_embed env s1 model_name request of
                            (r, calls2) \<Rightarrow> (s1, r, calls @ calls2)))
          else (case dispatch_embed env s model_name request of
                  (r, calls2) \<Rightarrow> (s, r, calls2)))"

subsection \<open>Reachable states\<close>

datatype operation =
    Register RegisterModelRequestModel
  | Update UpdateModelRequestModel
  | Unregister string
  | Load string
  | Unload string
  | GenerateText TextGenerationRequestModel
  | GenerateEmbedding EmbeddingRequestModel

fun apply_operation :: "Providers \<Rightarrow> ModelService \<Rightarrow> operation \<Rightarrow> ModelService" where
  "apply_operation env s (Register request) = fst (register_model s request)"
| "apply_operation env s (Update request) = fst (update_model s request)"
| "apply_operation env s (Unregister name) = fst (unregister_model s name)"
| "apply_operation env s (Load name) = fst (load_model env s name)"
| "apply_operation env s (Unload name) = fst (unload_model s name)"
| "apply_operation env s (GenerateText request) = fst (generate_text env s request)"
| "apply_operation env s (GenerateEmbedding request) = fst (generate_embedding env s request)"

text \<open>
  The states the service can be in: the state after \<open>__init__\<close>, and every state an
  operation leads to from one of them, whatever the provider libraries answer then.
\<close>

inductive reachable :: "ModelService \<Rightarrow> bool" where
  reachable_init: "reachable (init_service client)"
| reachable_step: "reachable s \<Longrightarrow> reachable (apply_operation env s operation)"

text \<open>The invariant of the two dictionaries: what is loaded is registered.\<close>

definition loaded_registered :: "ModelService \<Rightarrow> bool" where
  "loaded_registered s = (fst ` set (loaded_models s) \<subseteq> fst ` set (models s))"

section \<open>Vector database service (app/services/vector_db.py)\<close>

subsection \<open>Data model (app/models/vector.py)\<close>

datatype IndexType = FLAT | IVF_FLAT | IVF_SQ8 | HNSW

datatype MetricType = L2 | IP | COSINE | HAMMING | JACCARD | TANIMOTO | SUBSTRUCTURE | SUPERSTRUCTURE

record IndexParamsModel =
  index_type :: IndexType
  metric_type :: MetricType
  params :: "(string \<times> string) list"

record VectorModel =
  vm_id :: string
  vm_vector :: "real list"
  vm_metadata :: "(string \<times> string) list option"

record SearchResultModel =
  sr_id :: string
  sr_score :: real
  sr_vector :: "real list option"
  sr_metadata :: "(string \<times> string) list option"

record SearchOptionsModel =
  topk :: int
  include_vector :: bool
  filter_expr :: "(string \<times> string) list option"

subsection \<open>The Milvus client library\<close>

text \<open>
  \<open>pymilvus\<close> and the Milvus server behind it are outside the repository. Every entry
  point of the library the service uses is a call that either raises or returns, and the
  service's calls are recorded in order. What the library answers may depend on
  everything that happened before, so each entry point is a function of the calls made
  so far and of its arguments. \<open>FieldSchema\<close> and \<open>CollectionSchema\<close> only build
  objects on the client side: they may raise but are not calls to the server.
\<close>

datatype milvus_call =
    HasCollection string
  | NewCollection string string int
  | OpenCollection string
  | CreateIndex string IndexParamsModel
  | DropCollection string
  | Insert string "string list" "real list list"
  | Upsert string "string list" "real list list"
  | LoadCollection string
  | Search string "real list" int

text \<open>A hit of a search: what \<open>hit.entity.get("id")\<close> gives, and \<open>hit.score\<close>.\<close>

record Hit =
  hit_entity_id :: "string option"
  hit_score :: real

record Milvus =
  utility_has_collection :: "milvus_call list \<Rightarrow> string \<Rightarrow> exn + bool"
  build_schema :: "string \<Rightarrow> int \<Rightarrow> exn + unit"
  Collection_new :: "milvus_call list \<Rightarrow> string \<Rightarrow> string \<Rightarrow> int \<Rightarrow> exn + unit"
  Collection_open :: "milvus_call list \<Rightarrow> string \<Rightarrow> exn + unit"
  collection_create_index :: "milvus_call list \<Rightarrow> string \<Rightarrow> IndexParamsModel \<Rightarrow> exn + unit"
  utility_drop_collection :: "milvus_call list \<Rightarrow> string \<Rightarrow> exn + unit"
  collection_insert :: "milvus_call list \<Rightarrow> string \<Rightarrow> string list \<Rightarrow> real list list \<Rightarrow> exn + string list"
  collection_upsert :: "milvus_call list \<Rightarrow> string \<Rightarrow> string list \<Rightarrow> real list list \<Rightarrow> exn + string list"
  collection_load :: "milvus_call list \<Rightarrow> string \<Rightarrow> exn + unit"
  collection_search :: "milvus_call list \<Rightarrow> string \<Rightarrow> real list \<Rightarrow> int \<Rightarrow> exn + Hit list"

subsection \<open>Formatting\<close>

text \<open>\<open>str(n)\<close> of a natural number, as the f-strings print \<open>len(...)\<close>.\<close>

fun str_nat :: "nat \<Rightarrow> string" where
  "str_nat n =
     (if n < 10 then [char_of (48 + n)]
      else str_nat (n div 10) @ [char_of (48 + n mod 10)])"

declare str_nat.simps [simp del]

subsection \<open>Collections\<close>

text \<open>
  Every method returns its tuple together with the calls made so far, extended by its
  own. \<open>create_collection\<close>: existence check, schema, \<open>Collection(name, schema)\<close>,
  \<open>create_index\<close>; one \<open>except\<close> clause for whatever raises.
\<close>

definition create_collection :: "Milvus \<Rightarrow> milvus_call list \<Rightarrow> string \<Rightarrow> string \<Rightarrow> int \<Rightarrow> IndexParamsModel \<Rightarrow> (bool \<times> string) \<times> milvus_call list" where
  "create_collection mv tr name description vector_dim index_params =
     (let tr1 = tr @ [HasCollection name] in
      case utility_has_collection mv tr name of
        Inl e \<Rightarrow> ((False, ''Failed to create collection: '' @ e), tr1)
      | Inr True \<Rightarrow> ((False, ''Collection '' @ name @ '' already exists''), tr1)
      | Inr False \<Rightarrow>
          (case build_schema mv description vector_dim of
             Inl e \<Rightarrow> ((False, ''Failed to create collection: '' @ e), tr1)
           | Inr schema \<Rightarrow>
               (let tr2 = tr1 @ [NewCollection name description vector_dim] in
                case Collection_new mv tr1 name description vector_dim of
                  Inl e \<Rightarrow> ((False, ''Failed to create collection: '' @ e), tr2)
                | Inr collection \<Rightarrow>
                    (let tr3 = tr2 @ [CreateIndex name index_params] in
                     case collection_create_index mv tr2 name index_params of
                       Inl e \<Rightarrow> ((False, ''Failed to create collection: '' @ e), tr3)
                     | Inr u \<Rightarrow>
                         ((True, ''Collection '' @ name @ '' created successfully''), tr3)))))"

definition drop_collection :: "Milvus \<Rightarrow> milvus_call list \<Rightarrow> string \<Rightarrow> (bool \<times> string) \<times> milvus_call list" where
  "drop_collection mv tr name =
     (let tr1 = tr @ [HasCollection name] in
      case utility_has_collection mv tr name of
        Inl e \<Rightarrow> ((False, ''Failed to drop collection: '' @ e), tr1)
      | Inr False \<Rightarrow> ((False, ''Collection '' @ name @ '' does not exist''), tr1)
      | Inr True \<Rightarrow>
          (let tr2 = tr1 @ [DropCollection name] in
           case utility_drop_collection mv tr1 name of
             Inl e \<Rightarrow> ((False, ''Failed to drop collection: '' @ e), tr2)
           | Inr u \<Rightarrow> ((True, ''Collection '' @ name @ '' dropped successfully''), tr2)))"

definition has_collection :: "Milvus \<Rightarrow> milvus_call list \<Rightarrow> string \<Rightarrow> bool \<times> milvus_call list" where
  "has_collection mv tr name =
     (case utility_has_collection mv tr name of
        Inl e \<Rightarrow> (False, tr @ [HasCollection name])
      | Inr b \<Rightarrow> (b, tr @ [HasCollection name]))"

subsection \<open>Vectors\<close>

definition insert_vectors :: "Milvus \<Rightarrow> milvus_call list \<Rightarrow> string \<Rightarrow> VectorModel list \<Rightarrow> (bool \<times> string \<times> string list) \<times> milvus_call list" where
  "insert_vectors mv tr collection_name vectors =
     (let tr1 = tr @ [HasCollection collection_name] in
      case utility_has_collection mv tr collection_name of
        Inl e \<Rightarrow> ((False, ''Failed to insert vectors: '' @ e, []), tr1)
      | Inr False \<Rightarrow> ((False, ''Collection '' @ collection_name @ '' does not exist'', []), tr1)
      | Inr True \<Rightarrow>
          (let tr2 = tr1 @ [OpenCollection collection_name] in
           case Collection_open mv tr1 collection_name of
             Inl e \<Rightarrow> ((False, ''Failed to insert vectors: '' @ e, []), tr2)
           | Inr collection \<Rightarrow>
               (let ids = map vm_id vectors;
                    vectors_data = map vm_vector vectors;
                    tr3 = tr2 @ [Insert collection_name ids vectors_data] in
                case collection_insert mv tr2 collection_name ids vectors_data of
                  Inl e \<Rightarrow> ((False, ''Failed to insert vectors: '' @ e, []), tr3)
                | Inr primary_keys \<Rightarrow>
                    ((True, ''Inserted '' @ str_nat (length vectors) @ '' vectors successfully'',
                      primary_keys), tr3))))"

definition upsert_vectors :: "Milvus \<Rightarrow> milvus_call list \<Rightarrow> string \<Rightarrow> VectorModel list \<Rightarrow> (bool \<times> string \<times> string list) \<times> milvus_call list" where
  "upsert_vectors mv tr collection_name vectors =
     (let tr1 = tr @ [HasCollection collection_name] in
      case utility_has_collection mv tr collection_name of
        Inl e \<Rightarrow> ((False, ''Failed to upsert vectors: '' @ e, []), tr1)
      | Inr False \<Rightarrow> ((False, ''Collection '' @ collection_name @ '' does not exist'', []), tr1)
      | Inr True \<Rightarrow>
          (let tr2 = tr1 @ [OpenCollection collection_name] in
           case Collection_open mv tr1 collection_name of
             Inl e \<Rightarrow> ((False, ''Failed to upsert vectors: '' @ e, []), tr2)
           | Inr collection \<Rightarrow>
               (let ids = map vm_id vectors;
                    vectors_data = map vm_vector vectors;
                    tr3 = tr2 @ [Upsert collection_name ids vectors_data] in
                case collection_upsert mv tr2 collection_name ids vectors_data of
                  Inl e \<Rightarrow> ((False, ''Failed to upsert vectors: '' @ e, []), tr3)
                | Inr primary_keys \<Rightarrow>
                    ((True, ''Upserted '' @ str_nat (length vectors) @ '' vectors successfully'',
                      primary_keys), tr3))))"

subsection \<open>Search\<close>

text \<open>
  \<open>SearchResultModel\<close> declares \<open>id: str\<close>: building a result from a hit without an
  id raises pydantic's validation error (its text is the library's; a fixed text stands
  for it). The loop over \<open>results[0]\<close> stops at the first hit that raises.
\<close>

definition validation_error_text :: exn where
  "validation_error_text = ''1 validation error for SearchResultModel''"

fun convert_hits :: "real list \<Rightarrow> SearchOptionsModel \<Rightarrow> Hit list \<Rightarrow> exn + SearchResultModel list" where
  "convert_hits query_vector options [] = Inr []"
| "convert_hits query_vector options (hit # hits) =
     (case hit_entity_id hit of
        None \<Rightarrow> Inl validation_error_text
      | Some i \<Rightarrow>
          (case convert_hits query_vector options hits of
             Inl e \<Rightarrow> Inl e
           | Inr rest \<Rightarrow>
               Inr (\<lparr>sr_id = i, sr_score = hit_score hit,
                      sr_vector = (if include_vector options then Some query_vector else None),
                      sr_metadata = Some []\<rparr> # rest)))"

definition search :: "Milvus \<Rightarrow> milvus_call list \<Rightarrow> string \<Rightarrow> real list \<Rightarrow> SearchOptionsModel \<Rightarrow> (bool \<times> string \<times> SearchResultModel list) \<times> milvus_call list" where
  "search mv tr collection_name query_vector options =
     (let tr1 = tr @ [HasCollection collection_name] in
      case utility_has_collection mv tr collection_name of
        Inl e \<Rightarrow> ((False, ''Failed to search vectors: '' @ e, []), tr1)
      | Inr False \<Rightarrow> ((False, ''Collection '' @ collection_name @ '' does not exist'', []), tr1)
      | Inr True \<Rightarrow>
          (let tr2 = tr1 @ [OpenCollection collection_name] in
           case Collection_open mv tr1 collection_name of
             Inl e \<Rightarrow> ((False, ''Failed to search vectors: '' @ e, []), tr2)
           | Inr collection \<Rightarrow>
               (let tr3 = tr2 @ [LoadCollection collection_name] in
                case collection_load mv tr2 collection_name of
                  Inl e \<Rightarrow> ((False, ''Failed to search vectors: '' @ e, []), tr3)
                | Inr u \<Rightarrow>
                    (let tr4 = tr3 @ [Search collection_name query_vector (topk options)] in
                     case collection_search mv tr3 collection_name query_vector (topk options) of
                       Inl e \<Rightarrow> ((False, ''Failed to search vectors: '' @ e, []), tr4)
                     | Inr hits \<Rightarrow>
                         (case convert_hits query_vector options hits of
                            Inl e \<Rightarrow> ((False, ''Failed to search vectors: '' @ e, []), tr4)
                          | Inr search_results \<Rightarrow>
                              ((True, ''Found '' @ str_nat (length search_results) @ '' results'',
                                search_results), tr4))))))"

section \<open>Concrete inputs\<close>

text \<open>
  Stand-ins for the libraries, to run the services at concrete inputs. The provider
  stand-in loads every model and answers every request. The requests are those of
  \<open>test_openai_integration.py\<close>: a generation model and an embedding model, both
  registered as default.
\<close>

definition stub_providers :: Providers where
  "stub_providers =
     \<lparr>AutoTokenizer_from_pretrained = (\<lambda>path. Inr 1),
      AutoModel_from_pretrained = (\<lambda>path. Inr 2),
      AutoModelForCausalLM_from_pretrained = (\<lambda>path. Inr 3),
      SentenceTransformer = (\<lambda>path. Inr 4),
      huggingface_generate = (\<lambda>m request. Inr (''text'', 1)),
      openai_chat_completions = (\<lambda>client path request. Inr (''text'', 1)),
      huggingface_embed = (\<lambda>m text. Inr [0, 1]),
      openai_embeddings = (\<lambda>client path text. Inr [0, 1]),
      sentence_transformers_encode = (\<lambda>m text. Inr [0, 1])\<rparr>"

definition gpt_request :: RegisterModelRequestModel where
  "gpt_request =
     \<lparr>rq_name = ''gpt-3.5-turbo'', rq_provider = OPENAI, rq_model_path = ''gpt-3.5-turbo'',
      rq_model_type = ''generation'', rq_description = Some ''OpenAI GPT-3.5 Turbo'',
      rq_is_default = True, rq_config = None\<rparr>"

definition ada_request :: RegisterModelRequestModel where
  "ada_request =
     \<lparr>rq_name = ''text-embedding-ada-002'', rq_provider = OPENAI,
      rq_model_path = ''text-embedding-ada-002'', rq_model_type = ''embedding'',
      rq_description = Some ''OpenAI text embedding'', rq_is_default = True,
      rq_config = None\<rparr>"

definition gpt_registered :: ModelService where
  "gpt_registered = apply_operation stub_providers (init_service (Some 0)) (Register gpt_request)"

definition gpt_loaded :: ModelService where
  "gpt_loaded = apply_operation stub_providers gpt_registered (Load ''gpt-3.5-turbo'')"

text \<open>
  An update of the generation model's locator, and requests that name the model or
  leave the choice to the default.
\<close>

definition gpt_update :: UpdateModelRequestModel where
  "gpt_update =
     \<lparr>up_name = ''gpt-3.5-turbo'', up_provider = None, up_model_path = Some ''gpt-4'',
      up_model_type = None, up_description = None, up_is_default = None, up_config = None\<rparr>"

definition gpt_prompt :: TextGenerationRequestModel where
  "gpt_prompt =
     \<lparr>tg_model_name = Some ''gpt-3.5-turbo'', tg_prompt = ''hello'', tg_max_tokens = 100,
      tg_temperature = 1, tg_top_p = 1\<rparr>"

definition default_prompt :: TextGenerationRequestModel where
  "default_prompt =
     \<lparr>tg_model_name = None, tg_prompt = ''hello'', tg_max_tokens = 100,
      tg_temperature = 1, tg_top_p = 1\<rparr>"

definition gpt_embed :: EmbeddingRequestModel where
  "gpt_embed = \<lparr>em_model_name = Some ''gpt-3.5-turbo'', em_text = ''x''\<rparr>"

definition default_embed :: EmbeddingRequestModel where
  "default_embed = \<lparr>em_model_name = None, em_text = ''x''\<rparr>"

text \<open>The service after \<open>gpt_update\<close>: the new locator, nothing loaded.\<close>

definition gpt_updated :: ModelService where
  "gpt_updated =
     \<lparr>models = [(''gpt-3.5-turbo'',
         \<lparr>mc_name = ''gpt-3.5-turbo'', mc_provider = OPENAI, mc_model_path = ''gpt-4'',
          mc_model_type = ''generation'', mc_description = Some ''OpenAI GPT-3.5 Turbo'',
          mc_is_default = True, mc_config = []\<rparr>)],
      loaded_models = [], openai_client = Some 0\<rparr>"

text \<open>
  The Milvus stand-in keeps, per collection that was created and not dropped since, its
  dimension; it is computed from the calls made so far. It refuses a dimension that is
  not positive and vectors of another length than the collection's dimension, builds an
  index or not as its first parameter says, and answers a search with its second
  parameter.
\<close>

fun mock_step :: "(string \<times> int) list \<Rightarrow> milvus_call \<Rightarrow> (string \<times> int) list" where
  "mock_step cs (NewCollection n d vd) =
     (if 0 < vd \<and> \<not> has_key cs n then AList.update n vd cs else cs)"
| "mock_step cs (DropCollection n) = AList.delete n cs"
| "mock_step cs c = cs"

definition mock_collections :: "milvus_call list \<Rightarrow> (string \<times> int) list" where
  "mock_collections tr = foldl mock_step [] tr"

definition mock_write :: "milvus_call list \<Rightarrow> string \<Rightarrow> string list \<Rightarrow> real list list \<Rightarrow> exn + string list" where
  "mock_write tr n ids vecs =
     (case map_of (mock_collections tr) n of
        None \<Rightarrow> Inl ''collection not found''
      | Some vd \<Rightarrow>
          if list_all (\<lambda>v. int (length v) = vd) vecs then Inr ids
          else Inl ''vector dimension mismatch'')"

definition mock_milvus :: "bool \<Rightarrow> Hit list \<Rightarrow> Milvus" where
  "mock_milvus index_ok hits =
     \<lparr>utility_has_collection = (\<lambda>tr n. Inr (has_key (mock_collections tr) n)),
      build_schema = (\<lambda>d vd. Inr ()),
      Collection_new = (\<lambda>tr n d vd. if 0 < vd then Inr () else Inl ''invalid dimension''),
      Collection_open = (\<lambda>tr n. if has_key (mock_collections tr) n then Inr ()
                                  else Inl ''collection not found''),
      collection_create_index = (\<lambda>tr n ip. if index_ok then Inr () else Inl ''index build failed''),
      utility_drop_collection = (\<lambda>tr n. Inr ()),
      collection_insert = mock_write,
      collection_upsert = mock_write,
      collection_load = (\<lambda>tr n. Inr ()),
      collection_search = (\<lambda>tr n q k. Inr hits)\<rparr>"

definition hnsw_l2 :: IndexParamsModel where
  "hnsw_l2 = \<lparr>index_type = HNSW, metric_type = L2, params = []\<rparr>"

text \<open>The calls of a successful \<open>create_collection("c1", "", 2, hnsw_l2)\<close>.\<close>

definition c1_created :: "milvus_call list" where
  "c1_created = [HasCollection ''c1'', NewCollection ''c1'' [] 2, CreateIndex ''c1'' hnsw_l2]"

definition v1_too_long :: VectorModel where
  "v1_too_long = \<lparr>vm_id = ''v1'', vm_vector = [1, 2, 3], vm_metadata = None\<rparr>"

definition with_vector :: SearchOptionsModel where
  "with_vector = \<lparr>topk = 5, include_vector = True, filter_expr = None\<rparr>"

definition without_vector :: SearchOptionsModel where
  "without_vector = \<lparr>topk = 5, include_vector = False, filter_expr = None\<rparr>"

definition two_hits :: "Hit list" where
  "two_hits = [\<lparr>hit_entity_id = Some ''v1'', hit_score = 0\<rparr>,
               \<lparr>hit_entity_id = Some ''v2'', hit_score = 1\<rparr>]"

section \<open>Properties of the model service\<close>

subsection \<open>Dictionary keys\<close>

lemma has_key_iff: "has_key d k \<longleftrightarrow> k \<in> fst ` set d"
  by (simp add: has_key_def map_of_eq_None_iff)

lemma keys_has_key: "map_of d k = Some v \<Longrightarrow> k \<in> fst ` set d"
  by (metis has_key_def has_key_iff option.distinct(1))

lemma keys_clear_other_defaults: "map fst (clear_other_defaults n ms) = map fst ms"
  by (induction ms) auto

lemma set_keys_clear: "fst ` set (clear_other_defaults n ms) = fst ` set ms"
  using keys_clear_other_defaults[of n ms] by (metis list.set_map)

lemma keys_delete: "fst ` set (AList.delete k d) = fst ` set d - {k}"
  using AList.delete_keys[of k d] by (metis list.set_map set_removeAll)

subsection \<open>Every loaded model is registered\<close>

lemma unload_model_loaded:
  "fst ` set (loaded_models (fst (unload_model s name))) = fst ` set (loaded_models s) - {name}"
  by (auto simp: unload_model_def has_key_iff keys_delete)

lemma unload_model_models: "models (fst (unload_model s name)) = models s"
  by (simp add: unload_model_def)

lemma register_model_inv:
  "loaded_registered s \<Longrightarrow> loaded_registered (fst (register_model s request))"
  by (auto simp: loaded_registered_def register_model_def Let_def set_keys_clear AList.dom_update)

lemma update_model_models_keys:
  "map_of (models s) (up_name request) = Some c \<Longrightarrow>
   fst ` set (models (fst (update_model s request))) = fst ` set (models s)"
  by (auto simp: update_model_def Let_def set_keys_clear AList.dom_update unload_model_models
      dest: keys_has_key)

lemma update_model_loaded_keys:
  "map_of (models s) (up_name request) = Some c \<Longrightarrow>
   fst ` set (loaded_models (fst (update_model s request)))
     = fst ` set (loaded_models s) - {up_name request}"
  by (auto simp: update_model_def Let_def unload_model_loaded has_key_iff)

lemma update_model_inv:
  assumes "loaded_registered s"
  shows "loaded_registered (fst (update_model s request))"
proof (cases "map_of (models s) (up_name request)")
  case None
  then show ?thesis using assms by (simp add: update_model_def)
next
  case (Some c)
  show ?thesis
    unfolding loaded_registered_def update_model_models_keys[OF Some]
      update_model_loaded_keys[OF Some]
    using assms by (auto simp: loaded_registered_def)
qed

lemma unregister_model_inv:
  assumes "loaded_registered s"
  shows "loaded_registered (fst (unregister_model s name))"
proof (cases "has_key (models s) name")
  case False
  then show ?thesis using assms by (simp add: unregister_model_def)
next
  case True
  show ?thesis
  proof (cases "has_key (loaded_models s) name")
    case loaded: True
    have "fst ` set (loaded_models s) - {name} \<subseteq> fst ` set (models s) - {name}"
      using assms unfolding loaded_registered_def by blast
    then show ?thesis using True loaded
      by (simp add: loaded_registered_def unregister_model_def Let_def keys_delete
          unload_model_loaded unload_model_models)
  next
    case notloaded: False
    then have "name \<notin> fst ` set (loaded_models s)" by (simp add: has_key_iff)
    then have "fst ` set (loaded_models s) \<subseteq> fst ` set (models s) - {name}"
      using assms unfolding loaded_registered_def by blast
    then show ?thesis using True notloaded
      by (simp add: loaded_registered_def unregister_model_def Let_def keys_delete)
  qed
qed

lemma unload_model_inv: "loaded_registered s \<Longrightarrow> loaded_registered (fst (unload_model s name))"
  by (auto simp: loaded_registered_def unload_model_loaded unload_model_models)

lemma store_loaded_inv:
  "loaded_registered s \<Longrightarrow> name \<in> fst ` set (models s) \<Longrightarrow>
   loaded_registered (fst (store_loaded s name r))"
  by (auto simp: loaded_registered_def store_loaded_def AList.dom_update
      split: prod.splits sum.splits)

lemma load_model_inv:
  assumes inv: "loaded_registered s"
  shows "loaded_registered (fst (load_model env s name))"
proof (cases "map_of (models s) name")
  case None
  then show ?thesis using inv by (simp add: load_model_def)
next
  case (Some c)
  then have reg: "name \<in> fst ` set (models s)" by (rule keys_has_key)
  show ?thesis using Some inv store_loaded_inv[OF inv reg]
    by (simp add: load_model_def split: ModelProvider.splits option.splits)
qed

text \<open>The generation methods change the state through \<open>load_model\<close> only.\<close>

lemma generate_text_state:
  "fst (generate_text env s request) = s
   \<or> (\<exists>name. fst (generate_text env s request) = fst (load_model env s name))"
  by (auto simp: generate_text_def split: option.splits prod.splits) (metis fst_conv)+

lemma generate_embedding_state:
  "fst (generate_embedding env s request) = s
   \<or> (\<exists>name. fst (generate_embedding env s request) = fst (load_model env s name))"
  by (auto simp: generate_embedding_def split: option.splits prod.splits) (metis fst_conv)+

lemma apply_operation_inv:
  assumes "loaded_registered s"
  shows "loaded_registered (apply_operation env s operation)"
proof (cases operation)
  case (GenerateText request)
  then show ?thesis using assms generate_text_state[of env s request] load_model_inv
    by auto
next
  case (GenerateEmbedding request)
  then show ?thesis using assms generate_embedding_state[of env s request] load_model_inv
    by auto
qed (simp_all add: assms register_model_inv update_model_inv unregister_model_inv
      unload_model_inv load_model_inv)

lemma reachable_loaded_registered: "reachable s \<Longrightarrow> loaded_registered s"
proof (induction rule: reachable.induct)
  case (reachable_init client)
  show ?case by (simp add: loaded_registered_def init_service_def)
next
  case (reachable_step s env operation)
  then show ?case by (simp add: apply_operation_inv)
qed

subsection \<open>The concrete states\<close>

lemma reachable_gpt_registered: "reachable gpt_registered"
  unfolding gpt_registered_def by (rule reachable_step[OF reachable_init])

lemma reachable_gpt_loaded: "reachable gpt_loaded"
  unfolding gpt_loaded_def by (rule reachable_step[OF reachable_gpt_registered])

lemma gpt_registered_eq:
  "gpt_registered =
     \<lparr>models = [(''gpt-3.5-turbo'',
         \<lparr>mc_name = ''gpt-3.5-turbo'', mc_provider = OPENAI, mc_model_path = ''gpt-3.5-turbo'',
          mc_model_type = ''generation'', mc_description = Some ''OpenAI GPT-3.5 Turbo'',
          mc_is_default = True, mc_config = []\<rparr>)],
      loaded_models = [], openai_client = Some 0\<rparr>"
  by (simp add: gpt_registered_def init_service_def register_model_def gpt_request_def has_key_def)

lemma gpt_loaded_eq:
  "gpt_loaded = gpt_registered\<lparr>loaded_models := [(''gpt-3.5-turbo'', Str ''openai'')]\<rparr>"
  by (simp add: gpt_loaded_def gpt_registered_eq load_model_def store_loaded_def has_key_def)

lemma gpt_loaded_is_loaded: "is_model_loaded gpt_loaded ''gpt-3.5-turbo''"
  by (simp add: gpt_loaded_eq is_model_loaded_def has_key_def)

lemma gpt_updated_eq:
  "update_model gpt_loaded gpt_update
     = (gpt_updated, (True, ''Model gpt-3.5-turbo updated successfully''))"
  by (simp add: gpt_loaded_eq gpt_registered_eq gpt_updated_def update_model_def gpt_update_def
      has_key_def unload_model_def)

subsection \<open>Default flags\<close>

text \<open>
  C1. Registering a descriptor with \<open>is_default = True\<close> should clear the flag of the
  other descriptors of the same model type and leave the descriptors of another model
  type as they were. The loop of \<open>register_model\<close> clears the flag of every other
  descriptor, whatever its type. Run on the two registrations of
  \<open>test_openai_integration.py\<close>: the generation model is registered as default and is
  the default for generation; registering the embedding model as default succeeds and
  takes the flag away from the generation model, so that no default for generation is
  left and a generation request without a model name is refused.
\<close>

theorem register_default_clears_other_type:
  "map_option mc_is_default (get_model gpt_registered ''gpt-3.5-turbo'') = Some True
   \<and> map_option mc_model_type (get_model gpt_registered ''gpt-3.5-turbo'') = Some ''generation''
   \<and> get_default_model gpt_registered ''generation'' \<noteq> None
   \<and> rq_model_type ada_request = ''embedding''
   \<and> fst (snd (register_model gpt_registered ada_request))
   \<and> map_option mc_is_default
        (get_model (fst (register_model gpt_registered ada_request)) ''gpt-3.5-turbo'') = Some False
   \<and> get_default_model (fst (register_model gpt_registered ada_request)) ''generation'' = None
   \<and> fst (snd (generate_text stub_providers (fst (register_model gpt_registered ada_request))
                  default_prompt))
       = (False, ''No default generation model available'', None)"
  by (simp add: gpt_registered_eq ada_request_def register_model_def has_key_def get_model_def
      get_default_model_def generate_text_def resolve_model_name_def default_prompt_def)

subsection \<open>Loading twice\<close>

lemma load_model_success:
  assumes "load_model env s name = (s', (True, m), calls)"
  shows "models s' = models s \<and> has_key (models s) name \<and> has_key (loaded_models s') name"
proof (cases "map_of (models s) name")
  case None
  then show ?thesis using assms by (simp add: load_model_def)
next
  case (Some c)
  then have reg: "has_key (models s) name" by (simp add: has_key_def)
  show ?thesis
  proof (cases "has_key (loaded_models s) name")
    case True
    then show ?thesis using assms Some reg by (auto simp: load_model_def)
  next
    case False
    then show ?thesis using assms Some reg
      by (auto simp: load_model_def store_loaded_def has_key_def AList.update_conv'
          split: ModelProvider.splits option.splits prod.splits sum.splits)
  qed
qed

lemma load_model_cached:
  assumes "has_key (models s) name" and "has_key (loaded_models s) name"
  shows "load_model env s name = (s, (True, ''Model '' @ name @ '' already loaded''), [])"
  using assms by (auto simp: load_model_def has_key_def)

text \<open>
  C6. In a reachable state, \<open>load_model\<close> of a name that is in \<open>loaded_models\<close>
  returns success, leaves the state as it is and calls no provider library. So a second
  \<open>load_model\<close> after a successful one, whatever the libraries would answer then,
  changes nothing and calls nothing.
\<close>

theorem load_model_idempotent:
  assumes "reachable s"
  shows "(is_model_loaded s name \<longrightarrow>
            load_model env s name = (s, (True, ''Model '' @ name @ '' already loaded''), []))
       \<and> (fst (fst (snd (load_model env s name))) \<longrightarrow>
            load_model env' (fst (load_model env s name)) name
              = (fst (load_model env s name),
                 (True, ''Model '' @ name @ '' already loaded''), []))"
proof (intro conjI impI)
  assume "is_model_loaded s name"
  then have l: "has_key (loaded_models s) name" by (simp add: is_model_loaded_def)
  then have "has_key (models s) name"
    using reachable_loaded_registered[OF assms] by (auto simp: loaded_registered_def has_key_iff)
  then show "load_model env s name = (s, (True, ''Model '' @ name @ '' already loaded''), [])"
    using l by (rule load_model_cached)
next
  assume ok: "fst (fst (snd (load_model env s name)))"
  obtain s' b m calls where r0: "load_model env s name = (s', (b, m), calls)"
    by (cases "load_model env s name") auto
  with ok have r: "load_model env s name = (s', (True, m), calls)" by simp
  from load_model_success[OF r]
  have "has_key (models s') name" "has_key (loaded_models s') name" by simp_all
  then show "load_model env' (fst (load_model env s name)) name
              = (fst (load_model env s name),
                 (True, ''Model '' @ name @ '' already loaded''), [])"
    using r by (simp add: load_model_cached)
qed

text \<open>
  The theorem on the service that registered and loaded one model, and on the service
  that registered it and loads it twice.
\<close>

theorem load_model_idempotent_witness:
  "reachable gpt_registered \<and> reachable gpt_loaded
   \<and> is_model_loaded gpt_loaded ''gpt-3.5-turbo''
   \<and> load_model stub_providers gpt_loaded ''gpt-3.5-turbo''
       = (gpt_loaded, (True, ''Model gpt-3.5-turbo already loaded''), [])
   \<and> fst (fst (snd (load_model stub_providers gpt_registered ''gpt-3.5-turbo'')))
   \<and> load_model stub_providers
         (fst (load_model stub_providers gpt_registered ''gpt-3.5-turbo'')) ''gpt-3.5-turbo''
       = (gpt_loaded, (True, ''Model gpt-3.5-turbo already loaded''), [])"
proof -
  have ld: "load_model stub_providers gpt_registered ''gpt-3.5-turbo''
      = (gpt_loaded, (True, ''Model gpt-3.5-turbo loaded successfully''), [])"
    by (simp add: gpt_loaded_eq gpt_registered_eq load_model_def store_loaded_def has_key_def)
  show ?thesis
    using load_model_idempotent[OF reachable_gpt_loaded, of "''gpt-3.5-turbo''"
        stub_providers stub_providers]
      load_model_idempotent[OF reachable_gpt_registered, of "''gpt-3.5-turbo''"
        stub_providers stub_providers]
      gpt_loaded_is_loaded ld reachable_gpt_registered reachable_gpt_loaded
    by simp
qed

subsection \<open>Updating a loaded model\<close>

lemma update_model_success:
  assumes "update_model s request = (s', (True, message))"
  shows "has_key (models s') (up_name request) \<and> \<not> has_key (loaded_models s') (up_name request)"
proof (cases "map_of (models s) (up_name request)")
  case None
  then show ?thesis using assms by (simp add: update_model_def)
next
  case (Some c)
  have s': "s' = fst (update_model s request)" using assms by simp
  show ?thesis
    unfolding s' has_key_iff update_model_models_keys[OF Some] update_model_loaded_keys[OF Some]
    using keys_has_key[OF Some] by simp
qed

lemma update_model_stored:
  assumes "update_model s request = (s', (True, message))"
  shows "\<exists>c. get_model s' (up_name request) = Some c
           \<and> (\<forall>p. up_provider request = Some p \<longrightarrow> mc_provider c = p)
           \<and> (\<forall>p. up_model_path request = Some p \<longrightarrow> mc_model_path c = p)
           \<and> (\<forall>t. up_model_type request = Some t \<longrightarrow> mc_model_type c = t)
           \<and> (\<forall>b. up_is_default request = Some b \<longrightarrow> mc_is_default c = b)"
proof (cases "map_of (models s) (up_name request)")
  case None
  then show ?thesis using assms by (simp add: update_model_def)
next
  case (Some c0)
  have s': "s' = fst (update_model s request)" using assms by simp
  show ?thesis
    unfolding s' get_model_def using Some
    by (simp add: update_model_def Let_def AList.update_conv' unload_model_models
        split: option.splits)
qed

lemma generate_text_not_loaded:
  assumes "tg_model_name tg = Some name" and "name \<noteq> []"
    and "has_key (models s) name" and "\<not> has_key (loaded_models s) name"
  shows "generate_text env s tg =
     (case load_model env s name of
        (s1, (success, msg), calls) \<Rightarrow>
          if \<not> success then (s1, (False, msg, None), calls)
          else (case dispatch_generate env s1 name tg of (r, calls2) \<Rightarrow> (s1, r, calls @ calls2)))"
  using assms by (simp add: generate_text_def resolve_model_name_def)

lemma generate_embedding_not_loaded:
  assumes "em_model_name em = Some name" and "name \<noteq> []"
    and "has_key (models s) name" and "\<not> has_key (loaded_models s) name"
  shows "generate_embedding env s em =
     (case load_model env s name of
        (s1, (success, msg), calls) \<Rightarrow>
          if \<not> success then (s1, (False, msg, None), calls)
          else (case dispatch_embed env s1 name em of (r, calls2) \<Rightarrow> (s1, r, calls @ calls2)))"
  using assms by (simp add: generate_embedding_def resolve_model_name_def)

text \<open>
  C7. After a successful \<open>update_model\<close> the model is not loaded, whether it was
  loaded before or not, and the registry holds the fields the request gave. The next
  \<open>generate_text\<close> or \<open>generate_embedding\<close> that names the model therefore goes
  through \<open>load_model\<close> on the updated state before it dispatches to the provider.
\<close>

theorem update_model_unloads:
  assumes "update_model s request = (s', (True, message))"
  shows "\<not> is_model_loaded s' (up_name request)
       \<and> (\<exists>c. get_model s' (up_name request) = Some c
             \<and> (\<forall>p. up_provider request = Some p \<longrightarrow> mc_provider c = p)
             \<and> (\<forall>p. up_model_path request = Some p \<longrightarrow> mc_model_path c = p)
             \<and> (\<forall>t. up_model_type request = Some t \<longrightarrow> mc_model_type c = t)
             \<and> (\<forall>b. up_is_default request = Some b \<longrightarrow> mc_is_default c = b))
       \<and> (tg_model_name tg = Some (up_name request) \<and> up_name request \<noteq> [] \<longrightarrow>
            generate_text env s' tg =
              (case load_model env s' (up_name request) of
                 (s1, (success, msg), calls) \<Rightarrow>
                   if \<not> success then (s1, (False, msg, None), calls)
                   else (case dispatch_generate env s1 (up_name request) tg of
                           (r, calls2) \<Rightarrow> (s1, r, calls @ calls2))))
       \<and> (em_model_name em = Some (up_name request) \<and> up_name request \<noteq> [] \<longrightarrow>
            generate_embedding env s' em =
              (case load_model env s' (up_name request) of
                 (s1, (success, msg), calls) \<Rightarrow>
                   if \<not> success then (s1, (False, msg, None), calls)
                   else (case dispatch_embed env s1 (up_name request) em of
                           (r, calls2) \<Rightarrow> (s1, r, calls @ calls2))))"
proof -
  from update_model_success[OF assms]
  have k: "has_key (models s') (up_name request)" "\<not> has_key (loaded_models s') (up_name request)"
    by simp_all
  have a: "\<not> is_model_loaded s' (up_name request)" using k by (simp add: is_model_loaded_def)
  have c: "tg_model_name tg = Some (up_name request) \<and> up_name request \<noteq> [] \<longrightarrow>
            generate_text env s' tg =
              (case load_model env s' (up_name request) of
                 (s1, (success, msg), calls) \<Rightarrow>
                   if \<not> success then (s1, (False, msg, None), calls)
                   else (case dispatch_generate env s1 (up_name request) tg of
                           (r, calls2) \<Rightarrow> (s1, r, calls @ calls2)))"
    using k by (simp add: generate_text_not_loaded)
  have d: "em_model_name em = Some (up_name request) \<and> up_name request \<noteq> [] \<longrightarrow>
            generate_embedding env s' em =
              (case load_model env s' (up_name request) of
                 (s1, (success, msg), calls) \<Rightarrow>
                   if \<not> success then (s1, (False, msg, None), calls)
                   else (case dispatch_embed env s1 (up_name request) em of
                           (r, calls2) \<Rightarrow> (s1, r, calls @ calls2)))"
    using k by (simp add: generate_embedding_not_loaded)
  show ?thesis using a update_model_stored[OF assms] c d by blast
qed

text \<open>
  The theorem on the loaded generation model, whose locator is updated: the model is
  unloaded, and the next generation or embedding loads it again and calls the provider
  with the new locator.
\<close>

theorem update_model_unloads_witness:
  "is_model_loaded gpt_loaded ''gpt-3.5-turbo''
   \<and> update_model gpt_loaded gpt_update
       = (gpt_updated, (True, ''Model gpt-3.5-turbo updated successfully''))
   \<and> \<not> is_model_loaded gpt_updated ''gpt-3.5-turbo''
   \<and> map_option mc_model_path (get_model gpt_updated ''gpt-3.5-turbo'') = Some ''gpt-4''
   \<and> generate_text stub_providers gpt_updated gpt_prompt
       = (gpt_updated\<lparr>loaded_models := [(''gpt-3.5-turbo'', Str ''openai'')]\<rparr>,
          (True, ''Text generated successfully'',
           Some \<lparr>tr_text = ''text'', tr_model_name = ''gpt-3.5-turbo'', tr_tokens_used = 1,
                 tr_finish_reason = ''completed''\<rparr>),
          [CallOpenAIChat ''gpt-4''])
   \<and> generate_embedding stub_providers gpt_updated gpt_embed
       = (gpt_updated\<lparr>loaded_models := [(''gpt-3.5-turbo'', Str ''openai'')]\<rparr>,
          (True, ''Embedding generated successfully'',
           Some \<lparr>er_embedding = [0, 1], er_model_name = ''gpt-3.5-turbo'', er_dimension = 2\<rparr>),
          [CallOpenAIEmbeddings ''gpt-4''])"
proof -
  have n: "up_name gpt_update = ''gpt-3.5-turbo''"
    "tg_model_name gpt_prompt = Some ''gpt-3.5-turbo''"
    "em_model_name gpt_embed = Some ''gpt-3.5-turbo''"
    by (simp_all add: gpt_update_def gpt_prompt_def gpt_embed_def)
  have de: "dispatch_embed stub_providers
        (gpt_updated\<lparr>loaded_models := [(''gpt-3.5-turbo'', Str ''openai'')]\<rparr>)
        ''gpt-3.5-turbo'' gpt_embed
      = ((True, ''Embedding generated successfully'',
           Some \<lparr>er_embedding = [0, 1], er_model_name = ''gpt-3.5-turbo'', er_dimension = 2\<rparr>),
         [CallOpenAIEmbeddings ''gpt-4''])"
    by (simp add: gpt_updated_def dispatch_embed_def embed_with_openai_def stub_providers_def)
  have ld: "load_model stub_providers gpt_updated ''gpt-3.5-turbo''
      = (gpt_updated\<lparr>loaded_models := [(''gpt-3.5-turbo'', Str ''openai'')]\<rparr>,
         (True, ''Model gpt-3.5-turbo loaded successfully''), [])"
    by (simp add: gpt_updated_def load_model_def store_loaded_def has_key_def)
  have d: "dispatch_generate stub_providers
        (gpt_updated\<lparr>loaded_models := [(''gpt-3.5-turbo'', Str ''openai'')]\<rparr>)
        ''gpt-3.5-turbo'' gpt_prompt
      = ((True, ''Text generated successfully'',
           Some \<lparr>tr_text = ''text'', tr_model_name = ''gpt-3.5-turbo'', tr_tokens_used = 1,
                 tr_finish_reason = ''completed''\<rparr>), [CallOpenAIChat ''gpt-4''])"
    by (simp add: gpt_updated_def dispatch_generate_def generate_with_openai_def
        stub_providers_def)
  have p: "map_option mc_model_path (get_model gpt_updated ''gpt-3.5-turbo'') = Some ''gpt-4''"
    by (simp add: gpt_updated_def get_model_def)
  have g: "generate_text stub_providers gpt_updated gpt_prompt
       = (gpt_updated\<lparr>loaded_models := [(''gpt-3.5-turbo'', Str ''openai'')]\<rparr>,
          (True, ''Text generated successfully'',
           Some \<lparr>tr_text = ''text'', tr_model_name = ''gpt-3.5-turbo'', tr_tokens_used = 1,
                 tr_finish_reason = ''completed''\<rparr>),
          [CallOpenAIChat ''gpt-4''])"
    using update_model_unloads[OF gpt_updated_eq, of gpt_prompt stub_providers] n ld d
    by simp
  have ge: "generate_embedding stub_providers gpt_updated gpt_embed
       = (gpt_updated\<lparr>loaded_models := [(''gpt-3.5-turbo'', Str ''openai'')]\<rparr>,
          (True, ''Embedding generated successfully'',
           Some \<lparr>er_embedding = [0, 1], er_model_name = ''gpt-3.5-turbo'', er_dimension = 2\<rparr>),
          [CallOpenAIEmbeddings ''gpt-4''])"
    using update_model_unloads[OF gpt_updated_eq, of gpt_prompt stub_providers gpt_embed] n ld de
    by simp
  have u: "\<not> is_model_loaded gpt_updated ''gpt-3.5-turbo''"
    using update_model_unloads[OF gpt_updated_eq] n by simp
  show ?thesis using gpt_loaded_is_loaded gpt_updated_eq u p g ge by simp
qed

subsection \<open>No default model\<close>

lemma get_default_model_None:
  "\<forall>c\<in>set (list_models s). \<not> (mc_model_type c = t \<and> mc_is_default c) \<Longrightarrow>
   get_default_model s t = None"
  by (simp add: get_default_model_def list_models_def find_None_iff)

text \<open>
  C8. A \<open>generate_embedding\<close> request without a model name (\<open>None\<close> or the empty
  string), when no registered model is of type embedding and default, is refused with the
  message that no default embedding model is available; the state stays as it is and no
  provider library is called, so no model is loaded. The same holds for
  \<open>generate_text\<close> and the type generation.
\<close>

theorem no_default_model_error:
  "(em_model_name em = None \<or> em_model_name em = Some [] \<longrightarrow>
      (\<forall>c\<in>set (list_models s). \<not> (mc_model_type c = ''embedding'' \<and> mc_is_default c)) \<longrightarrow>
      generate_embedding env s em
        = (s, (False, ''No default embedding model available'', None), []))
   \<and> (tg_model_name tg = None \<or> tg_model_name tg = Some [] \<longrightarrow>
      (\<forall>c\<in>set (list_models s). \<not> (mc_model_type c = ''generation'' \<and> mc_is_default c)) \<longrightarrow>
      generate_text env s tg
        = (s, (False, ''No default generation model available'', None), []))"
  by (auto simp: generate_embedding_def generate_text_def resolve_model_name_def
      get_default_model_None)

text \<open>
  The theorem on a service whose only model is the default for generation (an embedding
  request is refused, a generation request is not), and on the empty service.
\<close>

theorem no_default_model_error_witness:
  "generate_embedding stub_providers gpt_registered default_embed
     = (gpt_registered, (False, ''No default embedding model available'', None), [])
   \<and> generate_text stub_providers gpt_registered default_prompt
     \<noteq> (gpt_registered, (False, ''No default generation model available'', None), [])
   \<and> generate_text stub_providers (init_service None) default_prompt
     = (init_service None, (False, ''No default generation model available'', None), [])"
proof -
  have a: "generate_embedding stub_providers gpt_registered default_embed
     = (gpt_registered, (False, ''No default embedding model available'', None), [])"
    using no_default_model_error[of default_embed gpt_registered stub_providers default_prompt]
    by (simp add: default_embed_def gpt_registered_eq list_models_def)
  have b: "generate_text stub_providers (init_service None) default_prompt
     = (init_service None, (False, ''No default generation model available'', None), [])"
    using no_default_model_error[of default_embed "init_service None" stub_providers default_prompt]
    by (simp add: default_prompt_def init_service_def list_models_def)
  have c: "generate_text stub_providers gpt_registered default_prompt
     \<noteq> (gpt_registered, (False, ''No default generation model available'', None), [])"
    by (simp add: generate_text_def resolve_model_name_def default_prompt_def gpt_registered_eq
        get_default_model_def has_key_def load_model_def store_loaded_def)
  show ?thesis using a b c by simp
qed

subsection \<open>The invariant\<close>

text \<open>
  C9. In every state reachable through \<open>register_model\<close>, \<open>update_model\<close>,
  \<open>unregister_model\<close>, \<open>load_model\<close>, \<open>unload_model\<close>, \<open>generate_text\<close> and
  \<open>generate_embedding\<close>, the keys of \<open>loaded_models\<close> are keys of \<open>models\<close>.
\<close>

theorem loaded_models_registered:
  "reachable s \<Longrightarrow> fst ` set (loaded_models s) \<subseteq> fst ` set (models s)"
  using reachable_loaded_registered by (simp add: loaded_registered_def)

text \<open>The theorem on the service that registered and loaded one model.\<close>

theorem loaded_models_registered_witness:
  "reachable gpt_loaded \<and> fst ` set (loaded_models gpt_loaded) = {''gpt-3.5-turbo''}
   \<and> fst ` set (loaded_models gpt_loaded) \<subseteq> fst ` set (models gpt_loaded)"
  using loaded_models_registered[OF reachable_gpt_loaded] reachable_gpt_loaded
  by (simp add: gpt_loaded_eq gpt_registered_eq)

section \<open>Properties of the vector database service\<close>

subsection \<open>The stand-in after one collection was created\<close>

lemma mock_collections_c1: "mock_collections c1_created = [(''c1'', 2)]"
  by (simp add: mock_collections_def c1_created_def has_key_def)

lemma mock_has_c1:
  "utility_has_collection (mock_milvus b hits) c1_created ''c1'' = Inr True"
  by (simp add: mock_milvus_def mock_collections_c1 has_key_def)

lemma mock_open_c1:
  "Collection_open (mock_milvus b hits) (c1_created @ [HasCollection ''c1'']) ''c1'' = Inr ()"
  by (simp add: mock_milvus_def mock_collections_def c1_created_def has_key_def)

lemma mock_has_not_c1:
  "utility_has_collection (mock_milvus b hits) [] ''c1'' = Inr False"
  by (simp add: mock_milvus_def mock_collections_def has_key_def)

lemma mock_build_schema: "build_schema (mock_milvus b hits) d vd = Inr ()"
  by (simp add: mock_milvus_def)

subsection \<open>Index creation fails after the collection was created\<close>

text \<open>
  With a library that creates the collection and then fails to build the index,
  \<open>create_collection\<close> reports the failure after three calls, none of which drops the
  collection, and the collection is still there afterwards.
\<close>

theorem create_collection_index_failure_counterexample:
  "create_collection (mock_milvus False []) [] ''c1'' [] 2 hnsw_l2
     = ((False, ''Failed to create collection: index build failed''),
        [HasCollection ''c1'', NewCollection ''c1'' [] 2, CreateIndex ''c1'' hnsw_l2])
   \<and> DropCollection ''c1''
        \<notin> set (snd (create_collection (mock_milvus False []) [] ''c1'' [] 2 hnsw_l2))
   \<and> utility_has_collection (mock_milvus False [])
        (snd (create_collection (mock_milvus False []) [] ''c1'' [] 2 hnsw_l2)) ''c1'' = Inr True"
  by (simp add: create_collection_def mock_milvus_def mock_collections_def has_key_def)

text \<open>
  C2, as the code has it. When the name is new, the collection is created and the index
  creation raises, \<open>create_collection\<close> returns the failure
  \<open>Failed to create collection: ...\<close> with the text of what was raised, and its calls to
  the library are the existence check, the creation of the collection and the creation of
  the index: nothing is called after the index creation failed, so the collection is not
  dropped.
\<close>

theorem create_collection_index_failure:
  assumes "utility_has_collection mv tr name = Inr False"
    and "build_schema mv description vector_dim = Inr ()"
    and "Collection_new mv (tr @ [HasCollection name]) name description vector_dim = Inr ()"
    and "collection_create_index mv
           (tr @ [HasCollection name, NewCollection name description vector_dim])
           name index_params = Inl e"
  shows "create_collection mv tr name description vector_dim index_params
           = ((False, ''Failed to create collection: '' @ e),
              tr @ [HasCollection name, NewCollection name description vector_dim,
                    CreateIndex name index_params])"
  using assms by (simp add: create_collection_def)

text \<open>The theorem on the stand-in that builds no index.\<close>

theorem create_collection_index_failure_witness:
  "utility_has_collection (mock_milvus False []) [] ''c1'' = Inr False
   \<and> build_schema (mock_milvus False []) [] 2 = Inr ()
   \<and> Collection_new (mock_milvus False []) [HasCollection ''c1''] ''c1'' [] 2 = Inr ()
   \<and> collection_create_index (mock_milvus False [])
        [HasCollection ''c1'', NewCollection ''c1'' [] 2] ''c1'' hnsw_l2 = Inl ''index build failed''
   \<and> create_collection (mock_milvus False []) [] ''c1'' [] 2 hnsw_l2
        = ((False, ''Failed to create collection: index build failed''),
           [HasCollection ''c1'', NewCollection ''c1'' [] 2, CreateIndex ''c1'' hnsw_l2])"
proof -
  have c: "Collection_new (mock_milvus False []) ([] @ [HasCollection ''c1'']) ''c1'' [] 2 = Inr ()"
    by (simp add: mock_milvus_def)
  have d: "collection_create_index (mock_milvus False [])
        ([] @ [HasCollection ''c1'', NewCollection ''c1'' [] 2]) ''c1'' hnsw_l2
      = Inl ''index build failed''"
    by (simp add: mock_milvus_def)
  show ?thesis
    using create_collection_index_failure[OF mock_has_not_c1 mock_build_schema c d]
      mock_has_not_c1[of False "[]"] mock_build_schema[of False "[]" "[]" 2] c d
    by simp
qed

subsection \<open>Vectors of another length than the dimension\<close>

text \<open>
  The collection \<open>c1\<close> has dimension 2 and the record has a vector of length 3:
  \<open>insert\<close> and \<open>upsert\<close> hand the record to the library all the same, and the
  failure they report is the one the library raised.
\<close>

theorem insert_wrong_length_counterexample:
  "length (vm_vector v1_too_long) = 3
   \<and> map_of (mock_collections c1_created) ''c1'' = Some 2
   \<and> insert_vectors (mock_milvus True []) c1_created ''c1'' [v1_too_long]
     = ((False, ''Failed to insert vectors: vector dimension mismatch'', []),
        c1_created @ [HasCollection ''c1'', OpenCollection ''c1'',
                      Insert ''c1'' [''v1''] [[1, 2, 3]]])
   \<and> upsert_vectors (mock_milvus True []) c1_created ''c1'' [v1_too_long]
     = ((False, ''Failed to upsert vectors: vector dimension mismatch'', []),
        c1_created @ [HasCollection ''c1'', OpenCollection ''c1'',
                      Upsert ''c1'' [''v1''] [[1, 2, 3]]])"
  by (simp add: insert_vectors_def upsert_vectors_def mock_milvus_def mock_collections_def
      has_key_def c1_created_def mock_write_def v1_too_long_def)

text \<open>
  C4, as the code has it. \<open>insert\<close> and \<open>upsert\<close> on a collection that exists and
  opens compare no vector length with the dimension: they always call the library's
  insert or upsert with the ids and vectors of all the records, and what they return is
  the library's outcome, its exception as \<open>Failed to insert vectors: ...\<close> (or
  \<open>upsert\<close>), its primary keys as success.
\<close>

theorem insert_passes_records_to_backend:
  assumes "utility_has_collection mv tr name = Inr True"
    and "Collection_open mv (tr @ [HasCollection name]) name = Inr ()"
  shows "insert_vectors mv tr name vectors =
           ((case collection_insert mv (tr @ [HasCollection name, OpenCollection name]) name
                    (map vm_id vectors) (map vm_vector vectors) of
               Inl e \<Rightarrow> (False, ''Failed to insert vectors: '' @ e, [])
             | Inr primary_keys \<Rightarrow>
                 (True, ''Inserted '' @ str_nat (length vectors) @ '' vectors successfully'',
                  primary_keys)),
            tr @ [HasCollection name, OpenCollection name,
                  Insert name (map vm_id vectors) (map vm_vector vectors)])
       \<and> upsert_vectors mv tr name vectors =
           ((case collection_upsert mv (tr @ [HasCollection name, OpenCollection name]) name
                    (map vm_id vectors) (map vm_vector vectors) of
               Inl e \<Rightarrow> (False, ''Failed to upsert vectors: '' @ e, [])
             | Inr primary_keys \<Rightarrow>
                 (True, ''Upserted '' @ str_nat (length vectors) @ '' vectors successfully'',
                  primary_keys)),
            tr @ [HasCollection name, OpenCollection name,
                  Upsert name (map vm_id vectors) (map vm_vector vectors)])"
  using assms by (simp add: insert_vectors_def upsert_vectors_def Let_def split: sum.splits)

text \<open>The theorem on the collection of dimension 2 and the vector of length 3.\<close>

theorem insert_passes_records_to_backend_witness:
  "utility_has_collection (mock_milvus True []) c1_created ''c1'' = Inr True
   \<and> Collection_open (mock_milvus True []) (c1_created @ [HasCollection ''c1'']) ''c1'' = Inr ()
   \<and> snd (insert_vectors (mock_milvus True []) c1_created ''c1'' [v1_too_long])
       = c1_created @ [HasCollection ''c1'', OpenCollection ''c1'',
                       Insert ''c1'' [''v1''] [[1, 2, 3]]]
   \<and> snd (upsert_vectors (mock_milvus True []) c1_created ''c1'' [v1_too_long])
       = c1_created @ [HasCollection ''c1'', OpenCollection ''c1'',
                       Upsert ''c1'' [''v1''] [[1, 2, 3]]]"
  using insert_passes_records_to_backend[OF mock_has_c1 mock_open_c1, of True "[]" "[v1_too_long]"]
    mock_has_c1[of True "[]"] mock_open_c1[of True "[]"]
  by (simp add: v1_too_long_def)

subsection \<open>A dimension that is not positive\<close>

text \<open>
  \<open>create_collection\<close> with dimension 0: for a name that exists the answer is that the
  collection already exists, after a call to the library; for a new name the library is
  asked to create the collection with dimension 0, and the failure is the one it raised.
\<close>

theorem create_collection_nonpositive_dim_counterexample:
  "create_collection (mock_milvus True []) c1_created ''c1'' [] 0 hnsw_l2
     = ((False, ''Collection c1 already exists''), c1_created @ [HasCollection ''c1''])
   \<and> create_collection (mock_milvus True []) [] ''c1'' [] 0 hnsw_l2
     = ((False, ''Failed to create collection: invalid dimension''),
        [HasCollection ''c1'', NewCollection ''c1'' [] 0])"
  by (simp add: create_collection_def mock_milvus_def mock_collections_def has_key_def
      c1_created_def)

text \<open>
  C5, as the code has it. \<open>create_collection\<close> has no check of the dimension of its
  own. Whatever the dimension, its first call asks the library whether the name exists,
  and a name that exists is answered with \<open>already exists\<close>. For a new name whose
  schema objects are built, the dimension goes unchanged into the library's creation of
  the collection: if that raises, the failure returned is
  \<open>Failed to create collection: ...\<close> with the text raised, and if it and the index
  creation succeed, so does \<open>create_collection\<close>.
\<close>

theorem create_collection_asks_backend_first:
  "take (Suc (length tr)) (snd (create_collection mv tr name description vector_dim index_params))
     = tr @ [HasCollection name]
   \<and> (utility_has_collection mv tr name = Inr True \<longrightarrow>
        create_collection mv tr name description vector_dim index_params
          = ((False, ''Collection '' @ name @ '' already exists''), tr @ [HasCollection name]))
   \<and> (utility_has_collection mv tr name = Inr False
        \<and> build_schema mv description vector_dim = Inr () \<longrightarrow>
        take (length tr + 2)
             (snd (create_collection mv tr name description vector_dim index_params))
          = tr @ [HasCollection name, NewCollection name description vector_dim]
        \<and> (\<forall>e. Collection_new mv (tr @ [HasCollection name]) name description vector_dim = Inl e
              \<longrightarrow> fst (create_collection mv tr name description vector_dim index_params)
                    = (False, ''Failed to create collection: '' @ e))
        \<and> (Collection_new mv (tr @ [HasCollection name]) name description vector_dim = Inr ()
            \<and> collection_create_index mv
                 (tr @ [HasCollection name, NewCollection name description vector_dim])
                 name index_params = Inr ()
              \<longrightarrow> fst (create_collection mv tr name description vector_dim index_params)
                    = (True, ''Collection '' @ name @ '' created successfully'')))"
  by (auto simp: create_collection_def Let_def split: sum.splits bool.splits)

text \<open>
  The theorem on the stand-in: dimension 0 for a name that exists and for a new name,
  and dimension 2 for a new name.
\<close>

theorem create_collection_asks_backend_first_witness:
  "take (Suc 0) (snd (create_collection (mock_milvus True []) [] ''c1'' [] 0 hnsw_l2))
     = [HasCollection ''c1'']
   \<and> utility_has_collection (mock_milvus True []) c1_created ''c1'' = Inr True
   \<and> create_collection (mock_milvus True []) c1_created ''c1'' [] 0 hnsw_l2
       = ((False, ''Collection c1 already exists''), c1_created @ [HasCollection ''c1''])
   \<and> utility_has_collection (mock_milvus True []) [] ''c1'' = Inr False
   \<and> build_schema (mock_milvus True []) [] 0 = Inr ()
   \<and> take 2 (snd (create_collection (mock_milvus True []) [] ''c1'' [] 0 hnsw_l2))
       = [HasCollection ''c1'', NewCollection ''c1'' [] 0]
   \<and> Collection_new (mock_milvus True []) [HasCollection ''c1''] ''c1'' [] 0
       = Inl ''invalid dimension''
   \<and> fst (create_collection (mock_milvus True []) [] ''c1'' [] 0 hnsw_l2)
       = (False, ''Failed to create collection: invalid dimension'')
   \<and> Collection_new (mock_milvus True []) [HasCollection ''c1''] ''c1'' [] 2 = Inr ()
   \<and> collection_create_index (mock_milvus True [])
        [HasCollection ''c1'', NewCollection ''c1'' [] 2] ''c1'' hnsw_l2 = Inr ()
   \<and> fst (create_collection (mock_milvus True []) [] ''c1'' [] 2 hnsw_l2)
       = (True, ''Collection c1 created successfully'')"
proof -
  have c: "Collection_new (mock_milvus True []) [HasCollection ''c1''] ''c1'' [] 0
      = Inl ''invalid dimension''"
    by (simp add: mock_milvus_def)
  have c2: "Collection_new (mock_milvus True []) [HasCollection ''c1''] ''c1'' [] 2 = Inr ()"
    by (simp add: mock_milvus_def)
  have i: "collection_create_index (mock_milvus True [])
        [HasCollection ''c1'', NewCollection ''c1'' [] 2] ''c1'' hnsw_l2 = Inr ()"
    by (simp add: mock_milvus_def)
  show ?thesis
    using create_collection_asks_backend_first[of "[]" "mock_milvus True []" "''c1''" "[]" 0 hnsw_l2]
      create_collection_asks_backend_first[of c1_created "mock_milvus True []" "''c1''" "[]" 0
        hnsw_l2]
      create_collection_asks_backend_first[of "[]" "mock_milvus True []" "''c1''" "[]" 2 hnsw_l2]
      mock_has_not_c1[of True "[]"] mock_build_schema[of True "[]"] c c2 i mock_has_c1[of True "[]"]
    by (simp add: numeral_2_eq_2)
qed

subsection \<open>The vector of a search result\<close>

lemma convert_hits_vectors:
  "convert_hits q options hits = Inr results \<Longrightarrow>
   \<forall>r\<in>set results. sr_vector r = (if include_vector options then Some q else None)"
proof (induction hits arbitrary: results)
  case Nil
  then show ?case by simp
next
  case (Cons hit hits)
  then show ?case by (auto split: option.splits sum.splits)
qed

lemma search_success_results:
  assumes "search mv tr name q options = ((True, message, results), tr')"
  shows "\<exists>hits. convert_hits q options hits = Inr results"
  using assms by (auto simp: search_def Let_def split: sum.splits bool.splits)

text \<open>
  C10. Every result of a successful \<open>search\<close> with \<open>include_vector\<close> set carries the
  query vector of the caller in its \<open>vector\<close> field (the stored vector of the record
  found is never read), and every result of a successful search without
  \<open>include_vector\<close> carries \<open>None\<close>.
\<close>

theorem search_echoes_query_vector:
  assumes "search mv tr name q options = ((True, message, results), tr')"
  shows "(include_vector options \<longrightarrow> (\<forall>r\<in>set results. sr_vector r = Some q))
       \<and> (\<not> include_vector options \<longrightarrow> (\<forall>r\<in>set results. sr_vector r = None))"
  using search_success_results[OF assms] convert_hits_vectors by fastforce

lemma search_two_hits:
  "search (mock_milvus True two_hits) c1_created ''c1'' [1, 2] with_vector
     = ((True, ''Found 2 results'',
         [\<lparr>sr_id = ''v1'', sr_score = 0, sr_vector = Some [1, 2], sr_metadata = Some []\<rparr>,
          \<lparr>sr_id = ''v2'', sr_score = 1, sr_vector = Some [1, 2], sr_metadata = Some []\<rparr>]),
        c1_created @ [HasCollection ''c1'', OpenCollection ''c1'', LoadCollection ''c1'',
                      Search ''c1'' [1, 2] 5])"
proof -
  have n: "str_nat (Suc (Suc 0)) = ''2''" by code_simp
  show ?thesis
    by (simp add: search_def mock_milvus_def mock_collections_def has_key_def c1_created_def
        two_hits_def with_vector_def n)
qed

lemma search_two_hits_plain:
  "search (mock_milvus True two_hits) c1_created ''c1'' [1, 2] without_vector
     = ((True, ''Found 2 results'',
         [\<lparr>sr_id = ''v1'', sr_score = 0, sr_vector = None, sr_metadata = Some []\<rparr>,
          \<lparr>sr_id = ''v2'', sr_score = 1, sr_vector = None, sr_metadata = Some []\<rparr>]),
        c1_created @ [HasCollection ''c1'', OpenCollection ''c1'', LoadCollection ''c1'',
                      Search ''c1'' [1, 2] 5])"
proof -
  have n: "str_nat (Suc (Suc 0)) = ''2''" by code_simp
  show ?thesis
    by (simp add: search_def mock_milvus_def mock_collections_def has_key_def c1_created_def
        two_hits_def without_vector_def n)
qed

text \<open>
  The theorem on a search that finds two records, with the query vector \<open>[1, 2]\<close>,
  once with and once without \<open>include_vector\<close>.
\<close>

theorem search_echoes_query_vector_witness:
  "include_vector with_vector
   \<and> fst (search (mock_milvus True two_hits) c1_created ''c1'' [1, 2] with_vector)
       = (True, ''Found 2 results'',
         [\<lparr>sr_id = ''v1'', sr_score = 0, sr_vector = Some [1, 2], sr_metadata = Some []\<rparr>,
          \<lparr>sr_id = ''v2'', sr_score = 1, sr_vector = Some [1, 2], sr_metadata = Some []\<rparr>])
   \<and> map sr_vector
        (snd (snd (fst (search (mock_milvus True two_hits) c1_created ''c1'' [1, 2] with_vector))))
       = [Some [1, 2], Some [1, 2]]
   \<and> \<not> include_vector without_vector
   \<and> map sr_vector
        (snd (snd (fst (search (mock_milvus True two_hits) c1_created ''c1'' [1, 2]
                          without_vector))))
       = [None, None]"
  using search_echoes_query_vector[OF search_two_hits] search_two_hits
    search_echoes_query_vector[OF search_two_hits_plain] search_two_hits_plain
  by (simp add: with_vector_def without_vector_def)

end
